theory Spec2Isabelle
  imports Complex_Main
begin

section \<open>Values, arrays and errors\<close>

text \<open>
  A floating-point value as the wrapper sees it: not-a-number, or a number. The wrapper
  only creates zeros, compares hyperparameters with \<open>0.0\<close> and tests \<open>np.isnan\<close>;
  rounding and the infinities are not modelled.
\<close>

datatype float = NaN | Fin real

fun isnan :: "float \<Rightarrow> bool" where
  "isnan NaN = True"
| "isnan (Fin x) = False"

text \<open>
  A value passed to the constructor. Python's \<open>bool\<close> is a subclass of \<open>int\<close>
  (\<open>True\<close> is the integer 1), so it is an \<open>IntV\<close>.
\<close>

datatype pyval = IntV int | FloatV float | StrV string | NoneV

text \<open>
  The exceptions the wrapper raises, with the library errors it can run into and the
  error of a compiled core. The messages are written without their inner quotes.
\<close>

datatype error =
    AssertionError string
  | KeyError string
  | ValueError string
  | TypeError string
  | AttributeError string
  | CoreError string

text \<open>
  A method call ends by raising or by returning; either way the object is left in some
  state, which the outcome carries.
\<close>

datatype ('a, 's) outcome = Raised error 's | Returned 'a 's

text \<open>A two-dimensional \<open>ndarray\<close>: \<open>shape[1]\<close> and the rows.\<close>

datatype ndarray2 = Array2 (ncols: nat) (rows: "float list list")

definition zeros1 :: "nat \<Rightarrow> float list" where
  "zeros1 n = replicate n (Fin 0)"

definition zeros2 :: "nat \<Rightarrow> nat \<Rightarrow> ndarray2" where
  "zeros2 n m = Array2 m (replicate n (replicate m (Fin 0)))"

text \<open>
  \<open>self.interactions\<close> while \<open>_init_interactions\<close> runs: the frame of raw
  identifiers (line 141), the frame whose user column is mapped (line 142), and the
  mapped index pairs (lines 143 to 152).
\<close>

datatype ('u, 'i) interactions_data =
    RawFrame "('u \<times> 'i) list"
  | UserMappedFrame "(nat \<times> 'i) list"
  | IndexArray "(nat \<times> nat) list"

text \<open>
  A feature table \<open>[id, f_1, ..., f_n]\<close>: the number of feature columns and the rows,
  each an identifier with its feature values.
\<close>

type_synonym 'k features = "nat \<times> ('k \<times> float list) list"

section \<open>The model object\<close>

record ('u, 'i) rankfm =
  factors :: nat
  regularization :: float
  sigma :: float
  learning_rate :: float
  learning_schedule :: string
  learning_exponent :: float
  user_id :: "'u list option"
  item_id :: "'i list option"
  user_idx :: "nat list option"
  item_idx :: "nat list option"
  index_to_user :: "'u list option"
  index_to_item :: "'i list option"
  user_to_index :: "('u \<times> nat) list option"
  item_to_index :: "('i \<times> nat) list option"
  interactions :: "('u, 'i) interactions_data option"
  user_items_py :: "(nat \<times> nat list) list option"
  user_items_nb :: "(nat \<times> nat list) list option"
  x_uf :: "ndarray2 option"
  x_if :: "ndarray2 option"
  w_i :: "float list option"
  w_if :: "float list option"
  v_u :: "ndarray2 option"
  v_i :: "ndarray2 option"
  v_uf :: "ndarray2 option"
  v_if :: "ndarray2 option"
  is_fit :: bool

text \<open>The six weight arrays of an object (the Weight Store).\<close>

type_synonym weights =
  "float list option \<times> float list option \<times> ndarray2 option \<times> ndarray2 option
     \<times> ndarray2 option \<times> ndarray2 option"

definition weight_store :: "('u, 'i) rankfm \<Rightarrow> weights" where
  "weight_store s = (w_i s, w_if s, v_u s, v_i s, v_uf s, v_if s)"

definition reset_state :: "('u, 'i) rankfm \<Rightarrow> ('u, 'i) rankfm" where
  "reset_state s = s\<lparr>
     user_id := None, item_id := None, user_idx := None, item_idx := None,
     index_to_user := None, index_to_item := None,
     user_to_index := None, item_to_index := None,
     interactions := None, user_items_py := None, user_items_nb := None,
     x_uf := None, x_if := None,
     w_i := None, w_if := None,
     v_u := None, v_i := None, v_uf := None, v_if := None,
     is_fit := False\<rparr>"

subsection \<open>The constructor\<close>

text \<open>\<open>isinstance(x, int) and x >= 1\<close>\<close>

fun is_int_ge1 :: "pyval \<Rightarrow> bool" where
  "is_int_ge1 (IntV n) = (1 \<le> n)"
| "is_int_ge1 _ = False"

text \<open>\<open>isinstance(x, float) and x >= 0.0\<close>; a comparison with not-a-number is false.\<close>

fun is_float_ge0 :: "pyval \<Rightarrow> bool" where
  "is_float_ge0 (FloatV (Fin x)) = (0 \<le> x)"
| "is_float_ge0 _ = False"

text \<open>\<open>isinstance(x, float) and x > 0.0\<close>\<close>

fun is_float_gt0 :: "pyval \<Rightarrow> bool" where
  "is_float_gt0 (FloatV (Fin x)) = (0 < x)"
| "is_float_gt0 _ = False"

text \<open>\<open>isinstance(x, str) and x in ('constant', 'invscaling')\<close>\<close>

fun is_schedule :: "pyval \<Rightarrow> bool" where
  "is_schedule (StrV n) = (n = ''constant'' \<or> n = ''invscaling'')"
| "is_schedule _ = False"

fun int_of :: "pyval \<Rightarrow> int" where
  "int_of (IntV n) = n"
| "int_of _ = 0"

fun float_of :: "pyval \<Rightarrow> float" where
  "float_of (FloatV x) = x"
| "float_of _ = NaN"

fun str_of :: "pyval \<Rightarrow> string" where
  "str_of (StrV n) = n"
| "str_of _ = []"

text \<open>
  \<open>RankFM.__init__\<close>: six assertions in the source's order, then the hyperparameters
  are stored and the state is cleared. A failed assertion leaves no object.
\<close>

definition RankFM_init ::
  "pyval \<Rightarrow> pyval \<Rightarrow> pyval \<Rightarrow> pyval \<Rightarrow> pyval \<Rightarrow> pyval \<Rightarrow> error + ('u, 'i) rankfm" where
  "RankFM_init factors' regularization' sigma' learning_rate' learning_schedule'
       learning_exponent' =
    (if \<not> is_int_ge1 factors' then
       Inl (AssertionError ''[factors] must be a positive integer'')
     else if \<not> is_float_ge0 regularization' then
       Inl (AssertionError ''[regularization] must be a non-negative float'')
     else if \<not> is_float_gt0 sigma' then
       Inl (AssertionError ''[sigma] must be a positive float'')
     else if \<not> is_float_gt0 learning_rate' then
       Inl (AssertionError ''[learning_rate] must be a positive float'')
     else if \<not> is_schedule learning_schedule' then
       Inl (AssertionError ''[learning_schedule] must be in (constant, invscaling)'')
     else if \<not> is_float_gt0 learning_exponent' then
       Inl (AssertionError ''[learning_exponent] must be a positive float'')
     else
       Inr (reset_state \<lparr>
         factors = nat (int_of factors'),
         regularization = float_of regularization',
         sigma = float_of sigma',
         learning_rate = float_of learning_rate',
         learning_schedule = str_of learning_schedule',
         learning_exponent = float_of learning_exponent',
         user_id = None, item_id = None, user_idx = None, item_idx = None,
         index_to_user = None, index_to_item = None,
         user_to_index = None, item_to_index = None,
         interactions = None, user_items_py = None, user_items_nb = None,
         x_uf = None, x_if = None,
         w_i = None, w_if = None,
         v_u = None, v_i = None, v_uf = None, v_if = None,
         is_fit = False\<rparr>))"

subsection \<open>Indexing the interactions\<close>

text \<open>
  \<open>Series.map(to_index)\<close>: the index position of every identifier, and NaN (here
  \<open>None\<close>) for an identifier that is not in the index.
\<close>

definition series_map :: "('k \<times> nat) list \<Rightarrow> 'k list \<Rightarrow> nat option list" where
  "series_map to_index ks = map (map_of to_index) ks"

text \<open>
  \<open>Series.astype(np.int32)\<close> on a mapped column: pandas refuses to cast a column that
  holds NaN to an integer type and raises ValueError.
\<close>

definition astype_int32 :: "nat option list \<Rightarrow> error + nat list" where
  "astype_int32 xs =
    (if None \<in> set xs
     then Inl (ValueError ''Cannot convert non-finite values (NA or inf) to integer'')
     else Inr (map the xs))"

text \<open>
  \<open>sort_values(['user_idx', 'item_idx']).groupby('user_idx')['item_idx'].apply(np.array)
  .to_dict()\<close>: for every user index of the frame, in ascending order, the ascending array
  of its item indices (duplicates kept).
\<close>

definition group_items :: "(nat \<times> nat) list \<Rightarrow> (nat \<times> nat list) list" where
  "group_items arr =
    map (\<lambda>u. (u, sort (map snd (filter (\<lambda>p. fst p = u) arr)))) (sort (remdups (map fst arr)))"

text \<open>
  \<open>_init_interactions\<close> (lines 131 to 155). The casts of lines 142 and 143 come before
  the \<open>dropna()\<close> of line 144, so an identifier outside the index raises there; after
  them no NaN is left and \<open>dropna()\<close> removes nothing.
\<close>

definition init_interactions ::
  "('u, 'i) rankfm \<Rightarrow> ('u \<times> 'i) list \<Rightarrow> (unit, ('u, 'i) rankfm) outcome" where
  "init_interactions s ia =
    (let s1 = s\<lparr>interactions := Some (RawFrame ia)\<rparr> in
     case user_to_index s1 of
       None \<Rightarrow> Raised (TypeError ''NoneType object is not callable'') s1
     | Some u2i \<Rightarrow>
    (case astype_int32 (series_map u2i (map fst ia)) of
       Inl e \<Rightarrow> Raised e s1
     | Inr us \<Rightarrow>
    (let s2 = s1\<lparr>interactions := Some (UserMappedFrame (zip us (map snd ia)))\<rparr> in
     case item_to_index s2 of
       None \<Rightarrow> Raised (TypeError ''NoneType object is not callable'') s2
     | Some i2i \<Rightarrow>
    (case astype_int32 (series_map i2i (map snd ia)) of
       Inl e \<Rightarrow> Raised e s2
     | Inr is \<Rightarrow>
    (let arr = zip us is;
         s3 = s2\<lparr>interactions := Some (IndexArray arr)\<rparr>;
         s4 = s3\<lparr>user_items_nb := Some []\<rparr>;
         s5 = s4\<lparr>user_items_py := Some (group_items arr)\<rparr>
     in Returned () (s5\<lparr>user_items_nb := user_items_py s5\<rparr>))))))"

subsection \<open>Indexing the features\<close>

text \<open>
  \<open>np.array_equal(sorted(index.values), idx)\<close> on a mapped index: NaN equals nothing, so
  the test holds when every identifier was found and the sorted positions are the stored
  index array.
\<close>

definition array_equal_sorted :: "nat option list \<Rightarrow> nat list option \<Rightarrow> bool" where
  "array_equal_sorted ks idx =
    (case idx of None \<Rightarrow> False | Some ix \<Rightarrow> None \<notin> set ks \<and> sort (map the ks) = ix)"

text \<open>
  One block of \<open>_init_features\<close> (lines 167 to 176, and again 179 to 188): the feature
  array row-ordered by index position, the KeyError of the block, or the single column of
  zeros when no table is given.
\<close>

definition feature_array ::
  "('k \<times> nat) list option \<Rightarrow> nat list option \<Rightarrow> 'k features option \<Rightarrow> string
     \<Rightarrow> error + ndarray2" where
  "feature_array to_index idx feats msg =
    (case feats of
       Some (p, rws) \<Rightarrow>
         (case to_index of
            None \<Rightarrow> Inl (TypeError ''NoneType object is not callable'')
          | Some m \<Rightarrow>
              (let ks = series_map m (map fst rws) in
               if array_equal_sorted ks idx
               then Inr (Array2 p (map snd (sort_key fst (zip (map the ks) (map snd rws)))))
               else Inl (KeyError msg)))
     | None \<Rightarrow>
         (case idx of
            None \<Rightarrow> Inl (TypeError ''object of type NoneType has no len()'')
          | Some ix \<Rightarrow> Inr (zeros2 (length ix) 1)))"

definition init_features ::
  "('u, 'i) rankfm \<Rightarrow> 'u features option \<Rightarrow> 'i features option
     \<Rightarrow> (unit, ('u, 'i) rankfm) outcome" where
  "init_features s user_features item_features =
    (case feature_array (user_to_index s) (user_idx s) user_features
            ''the users in [user_features] do not match the users in [interactions]'' of
       Inl e \<Rightarrow> Raised e s
     | Inr xu \<Rightarrow>
    (let s1 = s\<lparr>x_uf := Some xu\<rparr> in
     case feature_array (item_to_index s1) (item_idx s1) item_features
            ''the items in [item_features] do not match the items in [interactions]'' of
       Inl e \<Rightarrow> Raised e s1
     | Inr xi \<Rightarrow> Returned () (s1\<lparr>x_if := Some xi\<rparr>)))"

subsection \<open>Initialising the weights\<close>

text \<open>
  \<open>_init_weights\<close> (lines 191 to 214). \<open>normal g scale n m\<close> stands for
  \<open>np.random.normal(loc=0, scale=scale, size=(n, m))\<close> on the process-wide random
  source \<open>g\<close>: it gives the array drawn and the source after the draw.
\<close>

definition init_weights ::
  "('g \<Rightarrow> float \<Rightarrow> nat \<Rightarrow> nat \<Rightarrow> ndarray2 \<times> 'g) \<Rightarrow> ('u, 'i) rankfm \<Rightarrow> 'g
     \<Rightarrow> 'u features option \<Rightarrow> 'i features option
     \<Rightarrow> (unit, ('u, 'i) rankfm \<times> 'g) outcome" where
  "init_weights normal s g user_features item_features =
    (case item_idx s of
       None \<Rightarrow> Raised (TypeError ''object of type NoneType has no len()'') (s, g)
     | Some iidx \<Rightarrow>
    (let s1 = s\<lparr>w_i := Some (zeros1 (length iidx))\<rparr> in
     case x_if s1 of
       None \<Rightarrow> Raised (AttributeError ''NoneType object has no attribute shape'') (s1, g)
     | Some xif \<Rightarrow>
    (let s2 = s1\<lparr>w_if := Some (zeros1 (ncols xif))\<rparr> in
     case user_idx s2 of
       None \<Rightarrow> Raised (TypeError ''object of type NoneType has no len()'') (s2, g)
     | Some uidx \<Rightarrow>
    (let (vu, g1) = normal g (sigma s2) (length uidx) (factors s2);
         s3 = s2\<lparr>v_u := Some vu\<rparr>;
         (vi, g2) = normal g1 (sigma s3) (length iidx) (factors s3);
         s4 = s3\<lparr>v_i := Some vi\<rparr>
     in
     case x_uf s4 of
       None \<Rightarrow> Raised (AttributeError ''NoneType object has no attribute shape'') (s4, g2)
     | Some xuf \<Rightarrow>
    (let (vuf, g3) =
           (if user_features = None then (zeros2 (ncols xuf) (factors s4), g2)
            else normal g2 (sigma s4) (ncols xuf) (factors s4));
         s5 = s4\<lparr>v_uf := Some vuf\<rparr>;
         (vif, g4) =
           (if item_features = None then (zeros2 (ncols xif) (factors s5), g3)
            else normal g3 (sigma s5) (ncols xif) (factors s5))
     in Returned () (s5\<lparr>v_if := Some vif\<rparr>, g4))))))"

subsection \<open>Indexing everything\<close>

text \<open>
  \<open>_init_all\<close> (lines 95 to 128). \<open>np.sort(np.unique(column))\<close> is the ascending list
  of the distinct identifiers; the reverse mapping pairs each with its position.
\<close>

definition init_all ::
  "('g \<Rightarrow> float \<Rightarrow> nat \<Rightarrow> nat \<Rightarrow> ndarray2 \<times> 'g) \<Rightarrow> ('u::linorder, 'i::linorder) rankfm \<Rightarrow> 'g
     \<Rightarrow> ('u \<times> 'i) list \<Rightarrow> 'u features option \<Rightarrow> 'i features option
     \<Rightarrow> (unit, ('u, 'i) rankfm \<times> 'g) outcome" where
  "init_all normal s g ia user_features item_features =
    (let uid = sort (remdups (map fst ia));
         iid = sort (remdups (map snd ia));
         s1 = s\<lparr>user_id := Some uid, item_id := Some iid\<rparr>;
         s2 = s1\<lparr>index_to_user := user_id s1, index_to_item := item_id s1\<rparr>;
         s3 = s2\<lparr>user_to_index := Some (zip uid [0..<length uid]),
                 item_to_index := Some (zip iid [0..<length iid])\<rparr>;
         s4 = s3\<lparr>user_idx := Some [0..<length uid], item_idx := Some [0..<length iid]\<rparr>
     in
     case init_interactions s4 ia of
       Raised e s5 \<Rightarrow> Raised e (s5, g)
     | Returned _ s5 \<Rightarrow>
    (case init_features s5 user_features item_features of
       Raised e s6 \<Rightarrow> Raised e (s6, g)
     | Returned _ s6 \<Rightarrow> init_weights normal s6 g user_features item_features))"

subsection \<open>Fitting\<close>

text \<open>
  The arrays \<open>_fit\<close> returns, and the arguments \<open>fit_partial\<close> passes to it (lines 254
  to 272), the six weight arrays last.
\<close>

type_synonym fitted =
  "float list \<times> float list \<times> ndarray2 \<times> ndarray2 \<times> ndarray2 \<times> ndarray2"

type_synonym ('u, 'i) fit_args =
  "('u, 'i) interactions_data option \<times> (nat \<times> nat list) list option \<times> nat list option
     \<times> float \<times> float \<times> string \<times> float \<times> int \<times> bool
     \<times> ndarray2 option \<times> ndarray2 option \<times> weights"

definition fit_args :: "('u, 'i) rankfm \<Rightarrow> int \<Rightarrow> bool \<Rightarrow> ('u, 'i) fit_args" where
  "fit_args s epochs verbose =
    (interactions s, user_items_nb s, item_idx s,
     regularization s, learning_rate s, learning_schedule s, learning_exponent s,
     epochs, verbose, x_uf s, x_if s, weight_store s)"

text \<open>What a fitting method returns to its caller: \<open>None\<close> or the object itself.\<close>

datatype returned = PyNone | Self

text \<open>
  The first statement of \<open>fit_partial\<close> (lines 248 to 252): a fitted object maps the new
  data to its indexes, any other object indexes everything.
\<close>

definition fit_partial_init ::
  "('g \<Rightarrow> float \<Rightarrow> nat \<Rightarrow> nat \<Rightarrow> ndarray2 \<times> 'g) \<Rightarrow> ('u::linorder, 'i::linorder) rankfm \<Rightarrow> 'g
     \<Rightarrow> ('u \<times> 'i) list \<Rightarrow> 'u features option \<Rightarrow> 'i features option
     \<Rightarrow> (unit, ('u, 'i) rankfm \<times> 'g) outcome" where
  "fit_partial_init normal s g ia user_features item_features =
    (if is_fit s then
       (case init_interactions s ia of
          Raised e s1 \<Rightarrow> Raised e (s1, g)
        | Returned _ s1 \<Rightarrow>
            (case init_features s1 user_features item_features of
               Raised e s2 \<Rightarrow> Raised e (s2, g)
             | Returned _ s2 \<Rightarrow> Returned () (s2, g)))
     else init_all normal s g ia user_features item_features)"

text \<open>
  \<open>fit_partial\<close> (lines 237 to 276). \<open>_fit\<close> belongs to \<open>rankfm.numba_methods\<close>, which
  is not part of the sources, so it is the parameter \<open>fit_core\<close>: from the random source
  and the arguments it gives the updated arrays or an error, and the source afterwards.
\<close>

definition fit_partial ::
  "('g \<Rightarrow> ('u, 'i) fit_args \<Rightarrow> (error + fitted) \<times> 'g)
     \<Rightarrow> ('g \<Rightarrow> float \<Rightarrow> nat \<Rightarrow> nat \<Rightarrow> ndarray2 \<times> 'g) \<Rightarrow> ('u::linorder, 'i::linorder) rankfm \<Rightarrow> 'g
     \<Rightarrow> ('u \<times> 'i) list \<Rightarrow> 'u features option \<Rightarrow> 'i features option \<Rightarrow> int \<Rightarrow> bool
     \<Rightarrow> (returned, ('u, 'i) rankfm \<times> 'g) outcome" where
  "fit_partial fit_core normal s g ia user_features item_features epochs verbose =
    (case fit_partial_init normal s g ia user_features item_features of
       Raised e sg \<Rightarrow> Raised e sg
     | Returned _ (s1, g1) \<Rightarrow>
    (case fit_core g1 (fit_args s1 epochs verbose) of
       (Inl e, g2) \<Rightarrow> Raised e (s1, g2)
     | (Inr (wi, wif, vu, vi, vuf, vif), g2) \<Rightarrow>
         Returned Self
           (s1\<lparr>w_i := Some wi, w_if := Some wif, v_u := Some vu, v_i := Some vi,
               v_uf := Some vuf, v_if := Some vif, is_fit := True\<rparr>, g2)))"

text \<open>
  \<open>fit\<close> (lines 222 to 234): the state is cleared, \<open>fit_partial\<close> runs, and its result
  is not passed on: the method has no \<open>return\<close> statement.
\<close>

definition fit ::
  "('g \<Rightarrow> ('u, 'i) fit_args \<Rightarrow> (error + fitted) \<times> 'g)
     \<Rightarrow> ('g \<Rightarrow> float \<Rightarrow> nat \<Rightarrow> nat \<Rightarrow> ndarray2 \<times> 'g) \<Rightarrow> ('u::linorder, 'i::linorder) rankfm \<Rightarrow> 'g
     \<Rightarrow> ('u \<times> 'i) list \<Rightarrow> 'u features option \<Rightarrow> 'i features option \<Rightarrow> int \<Rightarrow> bool
     \<Rightarrow> (returned, ('u, 'i) rankfm \<times> 'g) outcome" where
  "fit fit_core normal s g ia user_features item_features epochs verbose =
    (case fit_partial fit_core normal (reset_state s) g ia user_features item_features
            epochs verbose of
       Raised e sg \<Rightarrow> Raised e sg
     | Returned _ sg \<Rightarrow> Returned PyNone sg)"

subsection \<open>Scoring and recommending\<close>

text \<open>
  \<open>predict\<close> (lines 279 to 313). \<open>_predict\<close> is not part of the sources either and is
  the parameter \<open>predict_core\<close>; it receives the mapped pairs, NaN (\<open>None\<close>) standing
  for an identifier that is not in the index. The object is never assigned to.
\<close>

definition predict ::
  "((nat option \<times> nat option) list \<Rightarrow> ndarray2 option \<Rightarrow> ndarray2 option \<Rightarrow> weights
       \<Rightarrow> error + float list)
     \<Rightarrow> ('u, 'i) rankfm \<Rightarrow> ('u \<times> 'i) list \<Rightarrow> string
     \<Rightarrow> (float list, ('u, 'i) rankfm) outcome" where
  "predict predict_core s pairs cold_start =
    (if \<not> is_fit s then
       Raised (AssertionError ''you must fit the model prior to generating predictions'') s
     else
       case user_to_index s of
         None \<Rightarrow> Raised (TypeError ''NoneType object is not callable'') s
       | Some u2i \<Rightarrow>
      (case item_to_index s of
         None \<Rightarrow> Raised (TypeError ''NoneType object is not callable'') s
       | Some i2i \<Rightarrow>
      (case predict_core (zip (series_map u2i (map fst pairs)) (series_map i2i (map snd pairs)))
              (x_uf s) (x_if s) (weight_store s) of
         Inl e \<Rightarrow> Raised e s
       | Inr scores \<Rightarrow>
           if cold_start = ''nan'' then Returned scores s
           else if cold_start = ''drop'' then Returned (filter (\<lambda>x. \<not> isnan x) scores) s
           else Raised (ValueError ''param [cold_start] must be set to either nan or drop'') s)))"

text \<open>
  \<open>column.map(index_to_item)\<close> on one cell of the recommendation array: the identifier
  at an index position, the missing marker for NaN and for a position outside the index.
\<close>

definition map_item :: "'i list \<Rightarrow> nat option \<Rightarrow> 'i option" where
  "map_item index_to_item' x =
    (case x of
       None \<Rightarrow> None
     | Some k \<Rightarrow> if k < length index_to_item' then Some (index_to_item' ! k) else None)"

text \<open>
  \<open>recommend_for_users\<close> (lines 316 to 351), with \<open>_recommend_for_users\<close> as the
  parameter \<open>recommend_core\<close>. The result is a frame with one row for every entry of
  \<open>users\<close>; pandas raises ValueError when the array has another number of rows.
  \<open>dropna(how='any')\<close> removes the rows that hold a missing marker. \<open>n_items\<close> is a
  count, passed on to the core as it is.
\<close>

definition recommend_for_users ::
  "(nat option list \<Rightarrow> (nat \<times> nat list) list option \<Rightarrow> nat \<Rightarrow> bool
       \<Rightarrow> ndarray2 option \<Rightarrow> ndarray2 option \<Rightarrow> weights \<Rightarrow> error + nat option list list)
     \<Rightarrow> ('u, 'i) rankfm \<Rightarrow> 'u list \<Rightarrow> nat \<Rightarrow> bool \<Rightarrow> string
     \<Rightarrow> (('u \<times> 'i option list) list, ('u, 'i) rankfm) outcome" where
  "recommend_for_users recommend_core s users n_items filter_previous cold_start =
    (if \<not> is_fit s then
       Raised (AssertionError ''you must fit the model prior to generating recommendations'') s
     else
       case user_to_index s of
         None \<Rightarrow> Raised (TypeError ''NoneType object is not callable'') s
       | Some u2i \<Rightarrow>
      (case recommend_core (series_map u2i users) (user_items_nb s) n_items filter_previous
              (x_uf s) (x_if s) (weight_store s) of
         Inl e \<Rightarrow> Raised e s
       | Inr rec_items \<Rightarrow>
           if length rec_items \<noteq> length users then
             Raised (ValueError ''Shape of passed values does not match the index'') s
           else
            (case index_to_item s of
               None \<Rightarrow> Raised (TypeError ''NoneType object is not callable'') s
             | Some i2item \<Rightarrow>
                (let frame = zip users (map (map (map_item i2item)) rec_items) in
                 if cold_start = ''nan'' then Returned frame s
                 else if cold_start = ''drop'' then
                   Returned (filter (\<lambda>r. None \<notin> set (snd r)) frame) s
                 else
                   Raised (ValueError ''param [cold_start] must be set to either nan or drop'')
                     s))))"

subsection \<open>The side-feature terms of a score\<close>





subsection \<open>The negative sampler\<close>

text \<open>
  Modelled from the spec: the negative sampler is part of \<open>rankfm.numba_methods\<close>, which
  is not among the sources. Section 4.2 of the specification: \<open>sample_negative(u)\<close> draws
  uniformly at random from all item indices, and the draw is retried until the drawn index
  is not in the observed-set of \<open>u\<close>; no retry limit and no fallback exist.
  \<open>choice g item_idx\<close> is one draw from the item indices on the random source \<open>g\<close>,
  with the source after the draw. A loop that never ends is the value \<open>None\<close>.
  \<open>observed user_items u\<close> is the observed set of \<open>u\<close> in the dictionary, empty for a
  user without an entry.
\<close>

definition observed :: "(nat \<times> nat list) list \<Rightarrow> nat \<Rightarrow> nat list" where
  "observed user_items u = (case map_of user_items u of None \<Rightarrow> [] | Some items \<Rightarrow> items)"

partial_function (option) sample_negative ::
  "('g \<Rightarrow> nat list \<Rightarrow> nat \<times> 'g) \<Rightarrow> 'g \<Rightarrow> nat list \<Rightarrow> (nat \<times> nat list) list \<Rightarrow> nat
     \<Rightarrow> (nat \<times> 'g) option" where
  "sample_negative choice g item_idx' user_items u =
    (case choice g item_idx' of
       (i, g') \<Rightarrow>
         if i \<in> set (observed user_items u)
         then sample_negative choice g' item_idx' user_items u
         else Some (i, g'))"

section \<open>Notions used in the statements\<close>

text \<open>The state an outcome leaves, and the error it raised, if any.\<close>

fun state_of :: "('a, 's) outcome \<Rightarrow> 's" where
  "state_of (Raised e s) = s"
| "state_of (Returned x s) = s"

fun raised :: "('a, 's) outcome \<Rightarrow> error option" where
  "raised (Raised e s) = Some e"
| "raised (Returned x s) = None"

text \<open>
  A feature table covers a list of known identifiers exactly when it has one row for each
  of them and no other row.
\<close>

definition covers_exactly :: "'k list \<Rightarrow> 'k features \<Rightarrow> bool" where
  "covers_exactly ids feats \<longleftrightarrow>
     distinct (map fst (snd feats)) \<and> set (map fst (snd feats)) = set ids"

text \<open>
  The indexes of an object are in place: the known identifiers are distinct, the reverse
  mapping pairs each with its position, and the index array counts the positions.
\<close>

definition indexed :: "('u, 'i) rankfm \<Rightarrow> bool" where
  "indexed s \<longleftrightarrow>
    (case user_id s of
       None \<Rightarrow> False
     | Some uid \<Rightarrow> distinct uid \<and> user_to_index s = Some (zip uid [0..<length uid])
         \<and> user_idx s = Some [0..<length uid])
    \<and> (case item_id s of
       None \<Rightarrow> False
     | Some iid \<Rightarrow> distinct iid \<and> item_to_index s = Some (zip iid [0..<length iid])
         \<and> item_idx s = Some [0..<length iid])"

text \<open>
  The identifiers a call of \<open>fit_partial\<close> checks the feature tables against: those of
  the object when it is fitted, those of the interactions of the call otherwise.
\<close>

definition known_users :: "('u::linorder, 'i) rankfm \<Rightarrow> ('u \<times> 'i) list \<Rightarrow> 'u list" where
  "known_users s ia =
    (if is_fit s then (case user_id s of None \<Rightarrow> [] | Some uid \<Rightarrow> uid)
     else sort (remdups (map fst ia)))"

definition known_items :: "('u, 'i::linorder) rankfm \<Rightarrow> ('u \<times> 'i) list \<Rightarrow> 'i list" where
  "known_items s ia =
    (if is_fit s then (case item_id s of None \<Rightarrow> [] | Some iid \<Rightarrow> iid)
     else sort (remdups (map snd ia)))"

text \<open>A feature table is given and does not cover the known identifiers exactly.\<close>

definition schema_mismatch ::
  "'u list \<Rightarrow> 'i list \<Rightarrow> 'u features option \<Rightarrow> 'i features option \<Rightarrow> bool" where
  "schema_mismatch uids iids user_features item_features \<longleftrightarrow>
    (case user_features of None \<Rightarrow> False | Some t \<Rightarrow> \<not> covers_exactly uids t)
    \<or> (case item_features of None \<Rightarrow> False | Some t \<Rightarrow> \<not> covers_exactly iids t)"

text \<open>
  An observed-set dictionary agrees with an interaction array: its keys are distinct,
  every pair \<open>(u, i)\<close> of the array has \<open>i\<close> among the items stored for \<open>u\<close>, and
  every item stored for a key \<open>u\<close> is a pair \<open>(u, i)\<close> of the array. An object is
  consistent when both of its dictionaries agree with its interaction array.
\<close>

definition dict_consistent :: "(nat \<times> nat) list \<Rightarrow> (nat \<times> nat list) list \<Rightarrow> bool" where
  "dict_consistent arr d \<longleftrightarrow>
     distinct (map fst d)
     \<and> (\<forall>p\<in>set arr. case map_of d (fst p) of None \<Rightarrow> False | Some items \<Rightarrow> snd p \<in> set items)
     \<and> (\<forall>e\<in>set d. \<forall>i\<in>set (snd e). (fst e, i) \<in> set arr)"

definition observed_consistent :: "('u, 'i) rankfm \<Rightarrow> bool" where
  "observed_consistent s \<longleftrightarrow>
    (case interactions s of
       Some (IndexArray arr) \<Rightarrow>
         (case user_items_py s of None \<Rightarrow> False | Some py \<Rightarrow> dict_consistent arr py)
         \<and> (case user_items_nb s of None \<Rightarrow> False | Some nb \<Rightarrow> dict_consistent arr nb)
     | _ \<Rightarrow> False)"

text \<open>The object after lines 104 to 119 of \<open>_init_all\<close>: the indexes are built.\<close>

definition with_indexes ::
  "('u::linorder, 'i::linorder) rankfm \<Rightarrow> ('u \<times> 'i) list \<Rightarrow> ('u, 'i) rankfm" where
  "with_indexes s ia =
    s\<lparr>user_id := Some (sort (remdups (map fst ia))),
      item_id := Some (sort (remdups (map snd ia))),
      index_to_user := Some (sort (remdups (map fst ia))),
      index_to_item := Some (sort (remdups (map snd ia))),
      user_to_index := Some (zip (sort (remdups (map fst ia)))
         [0..<length (sort (remdups (map fst ia)))]),
      item_to_index := Some (zip (sort (remdups (map snd ia)))
         [0..<length (sort (remdups (map snd ia)))]),
      user_idx := Some [0..<length (sort (remdups (map fst ia)))],
      item_idx := Some [0..<length (sort (remdups (map snd ia)))]\<rparr>"

text \<open>The values given to the constructor, which no method changes.\<close>

definition hyperparameters ::
  "('u, 'i) rankfm \<Rightarrow> nat \<times> float \<times> float \<times> float \<times> string \<times> float" where
  "hyperparameters s =
    (factors s, regularization s, sigma s, learning_rate s, learning_schedule s,
     learning_exponent s)"

text \<open>
  The random source after \<open>n\<close> draws from the item indices, and the item index that draw
  number \<open>n\<close> (counted from 0) gives.
\<close>

definition source_after ::
  "('g \<Rightarrow> nat list \<Rightarrow> nat \<times> 'g) \<Rightarrow> nat list \<Rightarrow> 'g \<Rightarrow> nat \<Rightarrow> 'g" where
  "source_after choice xs g n = ((\<lambda>h. snd (choice h xs)) ^^ n) g"

definition nth_draw ::
  "('g \<Rightarrow> nat list \<Rightarrow> nat \<times> 'g) \<Rightarrow> nat list \<Rightarrow> 'g \<Rightarrow> nat \<Rightarrow> nat" where
  "nth_draw choice xs g n = fst (choice (source_after choice xs g n) xs)"


subsection \<open>A small object to run the methods on\<close>

text \<open>
  A random source that counts its draws and fills an array with the scale, a trainer that
  hands the arrays back as it got them, an object as the constructor leaves it, and the
  object a first fit of the interactions \<open>(1, 10), (1, 20), (2, 20)\<close> leaves.
\<close>

definition example_normal :: "nat \<Rightarrow> float \<Rightarrow> nat \<Rightarrow> nat \<Rightarrow> ndarray2 \<times> nat" where
  "example_normal g scale n m = (Array2 m (replicate n (replicate m scale)), Suc g)"

fun example_fit_core :: "nat \<Rightarrow> (int, int) fit_args \<Rightarrow> (error + fitted) \<times> nat" where
  "example_fit_core g (ia, ui, ii, reg, lr, ls, le, ep, vb, xu, xi, wi, wif, vu, vi, vuf, vif) =
    (case (wi, wif, vu, vi, vuf, vif) of
       (Some a, Some b, Some c, Some d, Some e, Some f) \<Rightarrow> (Inr (a, b, c, d, e, f), Suc g)
     | _ \<Rightarrow> (Inl (CoreError ''cannot type the arguments''), g))"

definition example_fresh :: "(int, int) rankfm" where
  "example_fresh = \<lparr>factors = 2, regularization = Fin (1 / 100), sigma = Fin (1 / 10),
    learning_rate = Fin (1 / 10), learning_schedule = ''constant'',
    learning_exponent = Fin (1 / 4), user_id = None, item_id = None,
    user_idx = None, item_idx = None, index_to_user = None,
    index_to_item = None, user_to_index = None, item_to_index = None,
    interactions = None, user_items_py = None, user_items_nb = None,
    x_uf = None, x_if = None, w_i = None, w_if = None, v_u = None,
    v_i = None, v_uf = None, v_if = None, is_fit = False\<rparr>"

definition example_fitted :: "(int, int) rankfm" where
  "example_fitted = \<lparr>factors = 2, regularization = Fin (1 / 100), sigma = Fin (1 / 10),
      learning_rate = Fin (1 / 10), learning_schedule = ''constant'',
      learning_exponent = Fin (1 / 4), user_id = Some [1, 2],
      item_id = Some [10, 20], user_idx = Some [0, 1],
      item_idx = Some [0, 1], index_to_user = Some [1, 2],
      index_to_item = Some [10, 20], user_to_index = Some [(1, 0), (2, 1)],
      item_to_index = Some [(10, 0), (20, 1)],
      interactions = Some (IndexArray [(0, 0), (0, 1), (1, 1)]),
      user_items_py = Some [(0, [0, 1]), (1, [1])],
      user_items_nb = Some [(0, [0, 1]), (1, [1])],
      x_uf = Some (Array2 1 [[Fin 0], [Fin 0]]),
      x_if = Some (Array2 1 [[Fin 0], [Fin 0]]), w_i = Some [Fin 0, Fin 0],
      w_if = Some [Fin 0],
      v_u = Some (Array2 2 [[Fin (1 / 10), Fin (1 / 10)], [Fin (1 / 10), Fin (1 / 10)]]),
      v_i = Some (Array2 2 [[Fin (1 / 10), Fin (1 / 10)], [Fin (1 / 10), Fin (1 / 10)]]),
      v_uf = Some (Array2 2 [[Fin 0, Fin 0]]),
      v_if = Some (Array2 2 [[Fin 0, Fin 0]]), is_fit = True\<rparr>"

text \<open>A source of item draws that walks through the item indices in turn.\<close>

definition example_choice :: "nat \<Rightarrow> nat list \<Rightarrow> nat \<times> nat" where
  "example_choice g xs = (xs ! (g mod length xs), Suc g)"

text \<open>
  A scorer that gives the sum of the two index positions and NaN for an unknown pair, a
  recommender that gives the first \<open>n_items\<close> item indices and a row of NaN for an
  unknown user, and a scorer that raises.
\<close>

definition example_predict_core ::
  "(nat option \<times> nat option) list \<Rightarrow> ndarray2 option \<Rightarrow> ndarray2 option \<Rightarrow> weights
     \<Rightarrow> error + float list" where
  "example_predict_core pairs xu xi w =
    Inr (map (\<lambda>p. case p of (Some u, Some i) \<Rightarrow> Fin (real (u + i)) | _ \<Rightarrow> NaN) pairs)"

definition example_recommend_core ::
  "nat option list \<Rightarrow> (nat \<times> nat list) list option \<Rightarrow> nat \<Rightarrow> bool
     \<Rightarrow> ndarray2 option \<Rightarrow> ndarray2 option \<Rightarrow> weights \<Rightarrow> error + nat option list list" where
  "example_recommend_core users ui n fp xu xi w =
    Inr (map (\<lambda>u. case u of None \<Rightarrow> replicate n None | Some _ \<Rightarrow> map Some [0..<n]) users)"

definition failing_predict_core ::
  "(nat option \<times> nat option) list \<Rightarrow> ndarray2 option \<Rightarrow> ndarray2 option \<Rightarrow> weights
     \<Rightarrow> error + float list" where
  "failing_predict_core pairs xu xi w = Inl (CoreError ''shapes do not match'')"



section \<open>Configuration errors\<close>

lemma is_int_ge1_iff: "is_int_ge1 v \<longleftrightarrow> (\<exists>n. v = IntV n \<and> 1 \<le> n)"
  by (cases v) auto

lemma is_float_ge0_iff: "is_float_ge0 v \<longleftrightarrow> (\<exists>x. v = FloatV (Fin x) \<and> 0 \<le> x)"
  by (cases v rule: is_float_ge0.cases) auto

lemma is_float_gt0_iff: "is_float_gt0 v \<longleftrightarrow> (\<exists>x. v = FloatV (Fin x) \<and> 0 < x)"
  by (cases v rule: is_float_gt0.cases) auto

lemma is_schedule_iff:
  "is_schedule v \<longleftrightarrow> v = StrV ''constant'' \<or> v = StrV ''invscaling''"
  by (cases v) auto

text \<open>
  C6. If the factor rank is not an integer of at least 1, or the regularization is not a
  float of at least 0, or sigma, the learning rate or the learning exponent is not a
  float above 0, or the learning schedule is neither \<open>'constant'\<close> nor
  \<open>'invscaling'\<close>, then the constructor raises an AssertionError and returns no object.
\<close>

theorem init_rejects_invalid_hyperparameters:
  assumes "(\<forall>n. f = IntV n \<longrightarrow> n < 1)
         \<or> (\<forall>x. r = FloatV (Fin x) \<longrightarrow> x < 0)
         \<or> (\<forall>x. sg = FloatV (Fin x) \<longrightarrow> x \<le> 0)
         \<or> (\<forall>x. lr = FloatV (Fin x) \<longrightarrow> x \<le> 0)
         \<or> (ls \<noteq> StrV ''constant'' \<and> ls \<noteq> StrV ''invscaling'')
         \<or> (\<forall>x. le = FloatV (Fin x) \<longrightarrow> x \<le> 0)"
  shows "\<exists>msg. (RankFM_init f r sg lr ls le :: error + ('u, 'i) rankfm)
           = Inl (AssertionError msg)"
proof -
  from assms have "\<not> is_int_ge1 f \<or> \<not> is_float_ge0 r \<or> \<not> is_float_gt0 sg
      \<or> \<not> is_float_gt0 lr \<or> \<not> is_schedule ls \<or> \<not> is_float_gt0 le"
    unfolding is_int_ge1_iff is_float_ge0_iff is_float_gt0_iff is_schedule_iff
    by fastforce
  then show ?thesis
    unfolding RankFM_init_def by auto
qed

theorem init_rejects_invalid_hyperparameters_witness:
  "\<exists>msg. (RankFM_init (IntV 0) (FloatV (Fin 0.01)) (FloatV (Fin 0.1)) (FloatV (Fin 0.1))
       (StrV ''constant'') (FloatV (Fin 0.25)) :: error + (int, int) rankfm)
     = Inl (AssertionError msg)"
  by (rule init_rejects_invalid_hyperparameters) simp

section \<open>The indexes and the feature tables\<close>

lemma map_of_index_Some:
  assumes "distinct ids" "k \<in> set ids"
  shows "\<exists>p<length ids. map_of (zip ids [0..<length ids]) k = Some p \<and> ids ! p = k"
proof -
  from assms(2) obtain p where p: "p < length ids" "ids ! p = k"
    by (auto simp: in_set_conv_nth)
  have "map_of (zip ids [0..<length ids]) (ids ! p) = Some ([0..<length ids] ! p)"
    by (rule map_of_zip_nth) (use assms p in auto)
  with p show ?thesis by auto
qed

lemma map_of_index_None:
  "map_of (zip ids [0..<length ids]) k = None \<longleftrightarrow> k \<notin> set ids"
  by (rule map_of_zip_is_None) simp

lemma array_equal_sorted_iff:
  assumes d: "distinct ids"
  shows "array_equal_sorted (series_map (zip ids [0..<length ids]) ks) (Some [0..<length ids])
     \<longleftrightarrow> distinct ks \<and> set ks = set ids"
proof -
  define m where "m = map_of (zip ids [0..<length ids])"
  define pos where "pos = (\<lambda>k. the (m k))"
  have pos: "pos k < length ids \<and> ids ! pos k = k \<and> m k = Some (pos k)" if "k \<in> set ids" for k
    using map_of_index_Some [OF d that] by (auto simp: pos_def m_def)
  have inj: "inj_on pos (set ids)"
    by (rule inj_onI) (metis pos)
  have img: "pos ` set ids = {0..<length ids}"
  proof
    show "pos ` set ids \<subseteq> {0..<length ids}" using pos by auto
    show "{0..<length ids} \<subseteq> pos ` set ids"
    proof
      fix p assume "p \<in> {0..<length ids}"
      then have p: "p < length ids" by simp
      then have "ids ! p \<in> set ids" by simp
      moreover have "pos (ids ! p) = p"
        using pos [of "ids ! p"] p d by (auto simp: nth_eq_iff_index_eq)
      ultimately show "p \<in> pos ` set ids" by force
    qed
  qed
  have none: "None \<notin> set (map m ks) \<longleftrightarrow> set ks \<subseteq> set ids"
    by (auto simp: m_def image_iff) (metis map_of_index_None subsetD)+
  have eq: "map the (map (map_of (zip ids [0..<length ids])) ks) = map pos ks"
    by (simp add: pos_def m_def)
  have ae: "array_equal_sorted (series_map (zip ids [0..<length ids]) ks) (Some [0..<length ids])
      \<longleftrightarrow> set ks \<subseteq> set ids \<and> sort (map pos ks) = [0..<length ids]"
    unfolding array_equal_sorted_def series_map_def eq
    using none by (simp add: m_def)
  show ?thesis
  proof
    assume "array_equal_sorted (series_map (zip ids [0..<length ids]) ks) (Some [0..<length ids])"
    then have sub: "set ks \<subseteq> set ids" and srt: "sort (map pos ks) = [0..<length ids]"
      using ae by simp_all
    from srt have "distinct (sort (map pos ks))" by simp
    then have dm: "distinct (map pos ks)" by simp
    then have dk: "distinct ks" by (simp add: distinct_map)
    from srt have "set (sort (map pos ks)) = {0..<length ids}" by simp
    then have "pos ` set ks = pos ` set ids" using img by simp
    with sub inj have "set ks = set ids"
      by (metis inj_on_image_eq_iff subset_refl)
    with dk show "distinct ks \<and> set ks = set ids" by simp
  next
    assume a: "distinct ks \<and> set ks = set ids"
    then have "distinct (map pos ks)"
      using inj by (simp add: distinct_map)
    moreover have "set (map pos ks) = set [0..<length ids]"
      using a img by simp
    ultimately have "sort (map pos ks) = [0..<length ids]"
      by (intro sorted_distinct_set_unique) auto
    with a ae show "array_equal_sorted (series_map (zip ids [0..<length ids]) ks)
        (Some [0..<length ids])"
      by simp
  qed
qed


lemma init_interactions_frame:
  assumes "init_interactions s ia = Raised e s' \<or> init_interactions s ia = Returned x s'"
  shows "\<exists>a b c. s' = s\<lparr>interactions := a, user_items_py := b, user_items_nb := c\<rparr>"
proof -
  have r: "\<And>a. s\<lparr>interactions := a\<rparr>
     = s\<lparr>interactions := a, user_items_py := user_items_py s, user_items_nb := user_items_nb s\<rparr>"
    by simp
  from assms show ?thesis
    unfolding init_interactions_def Let_def
    by (auto split: option.splits sum.splits) (use r in blast)+
qed

lemma init_features_frame:
  assumes "init_features s uf itf = Raised e s' \<or> init_features s uf itf = Returned x s'"
  shows "\<exists>a b. s' = s\<lparr>x_uf := a, x_if := b\<rparr>"
proof -
  have r: "s = s\<lparr>x_uf := x_uf s, x_if := x_if s\<rparr>"
    "\<And>a. s\<lparr>x_uf := a\<rparr> = s\<lparr>x_uf := a, x_if := x_if s\<rparr>"
    by simp_all
  from assms show ?thesis
    unfolding init_features_def Let_def
    by (auto split: option.splits sum.splits) (use r in blast)+
qed

lemma feature_array_mismatch:
  assumes "distinct ids" "\<not> covers_exactly ids t"
  shows "feature_array (Some (zip ids [0..<length ids])) (Some [0..<length ids]) (Some t) msg
    = Inl (KeyError msg)"
  using array_equal_sorted_iff [OF assms(1), of "map fst (snd t)"] assms(2)
  by (cases t) (simp add: feature_array_def covers_exactly_def)

lemma init_features_mismatch:
  assumes ix: "indexed s"
    and mm: "schema_mismatch (case user_id s of None \<Rightarrow> [] | Some uid \<Rightarrow> uid)
       (case item_id s of None \<Rightarrow> [] | Some iid \<Rightarrow> iid) uf itf"
  shows "\<exists>e s'. init_features s uf itf = Raised e s'"
proof -
  from ix obtain uid iid where
    u: "user_id s = Some uid" "distinct uid" "user_to_index s = Some (zip uid [0..<length uid])"
       "user_idx s = Some [0..<length uid]" and
    i: "item_id s = Some iid" "distinct iid" "item_to_index s = Some (zip iid [0..<length iid])"
       "item_idx s = Some [0..<length iid]"
    by (auto simp: indexed_def split: option.splits)
  show ?thesis
  proof (cases "feature_array (user_to_index s) (user_idx s) uf
      ''the users in [user_features] do not match the users in [interactions]''")
    case (Inl e)
    then show ?thesis by (simp add: init_features_def)
  next
    case (Inr xu)
    have "\<not> (case uf of None \<Rightarrow> False | Some t \<Rightarrow> \<not> covers_exactly uid t)"
    proof
      assume "case uf of None \<Rightarrow> False | Some t \<Rightarrow> \<not> covers_exactly uid t"
      then obtain t where "uf = Some t" "\<not> covers_exactly uid t"
        by (auto split: option.splits)
      with Inr u feature_array_mismatch [of uid t] show False by simp
    qed
    with mm u i obtain t where t: "itf = Some t" "\<not> covers_exactly iid t"
      by (auto simp: schema_mismatch_def split: option.splits)
    then show ?thesis
      using Inr i feature_array_mismatch [of iid t]
      by (simp add: init_features_def Let_def)
  qed
qed

lemma fit_partial_init_mismatch:
  fixes s :: "('u::linorder, 'i::linorder) rankfm"
  assumes wf: "is_fit s \<longrightarrow> indexed s"
    and mm: "schema_mismatch (known_users s ia) (known_items s ia) uf itf"
  shows "\<exists>e s'. fit_partial_init nrm s g ia uf itf = Raised e (s', g)
           \<and> weight_store s' = weight_store s"
proof -
  define s0 where "s0 = (if is_fit s then s else
     s\<lparr>user_id := Some (sort (remdups (map fst ia))), item_id := Some (sort (remdups (map snd ia))),
       index_to_user := Some (sort (remdups (map fst ia))),
       index_to_item := Some (sort (remdups (map snd ia))),
       user_to_index := Some (zip (sort (remdups (map fst ia)))
          [0..<length (sort (remdups (map fst ia)))]),
       item_to_index := Some (zip (sort (remdups (map snd ia)))
          [0..<length (sort (remdups (map snd ia)))]),
       user_idx := Some [0..<length (sort (remdups (map fst ia)))],
       item_idx := Some [0..<length (sort (remdups (map snd ia)))]\<rparr>)"
  have ix0: "indexed s0" using wf by (auto simp: s0_def indexed_def)
  have w0: "weight_store s0 = weight_store s" by (simp add: s0_def weight_store_def)
  have mm0: "schema_mismatch (case user_id s0 of None \<Rightarrow> [] | Some uid \<Rightarrow> uid)
       (case item_id s0 of None \<Rightarrow> [] | Some iid \<Rightarrow> iid) uf itf"
    using mm by (auto simp: s0_def known_users_def known_items_def)
  have step: "fit_partial_init nrm s g ia uf itf =
    (case init_interactions s0 ia of
          Raised e s1 \<Rightarrow> Raised e (s1, g)
        | Returned _ s1 \<Rightarrow>
            (case init_features s1 uf itf of
               Raised e s2 \<Rightarrow> Raised e (s2, g)
             | Returned _ s2 \<Rightarrow>
                 if is_fit s then Returned () (s2, g) else init_weights nrm s2 g uf itf))"
    by (auto simp: fit_partial_init_def init_all_def s0_def Let_def
        split: outcome.splits)
  show ?thesis
  proof (cases "init_interactions s0 ia")
    case (Raised e s1)
    with init_interactions_frame [of s0 ia e s1] have "weight_store s1 = weight_store s0"
      by (auto simp: weight_store_def)
    with Raised step w0 show ?thesis by simp
  next
    case (Returned x s1)
    with init_interactions_frame [of s0 ia _ s1 x] obtain a b c where
      s1: "s1 = s0\<lparr>interactions := a, user_items_py := b, user_items_nb := c\<rparr>"
      by blast
    have "indexed s1" using ix0 by (auto simp: s1 indexed_def split: option.splits)
    moreover have "schema_mismatch (case user_id s1 of None \<Rightarrow> [] | Some uid \<Rightarrow> uid)
       (case item_id s1 of None \<Rightarrow> [] | Some iid \<Rightarrow> iid) uf itf"
      using mm0 by (simp add: s1)
    ultimately obtain e s2 where r: "init_features s1 uf itf = Raised e s2"
      using init_features_mismatch by blast
    with init_features_frame [of s1 uf itf e s2] have "weight_store s2 = weight_store s1"
      by (auto simp: weight_store_def)
    moreover have "weight_store s1 = weight_store s0" by (simp add: s1 weight_store_def)
    ultimately show ?thesis using Returned r step w0 by simp
  qed
qed


lemma init_example: "RankFM_init (IntV 2) (FloatV (Fin (1 / 100))) (FloatV (Fin (1 / 10)))
   (FloatV (Fin (1 / 10))) (StrV ''constant'') (FloatV (Fin (1 / 4))) = Inr example_fresh"
  by (simp add: RankFM_init_def example_fresh_def reset_state_def)

lemma fit_partial_raised_init:
  "fit_partial_init nrm s g ia uf itf = Raised e sg \<Longrightarrow>
   fit_partial fc nrm s g ia uf itf ep vb = Raised e sg"
  by (simp add: fit_partial_def)

lemma fit_raised_init:
  "fit_partial_init nrm (reset_state s) g ia uf itf = Raised e sg \<Longrightarrow>
   fit fc nrm s g ia uf itf ep vb = Raised e sg"
  by (simp add: fit_def fit_partial_def)

lemma weight_store_reset:
  "weight_store (reset_state s) = (None, None, None, None, None, None)"
  by (simp add: weight_store_def reset_state_def)

lemma example_fitted_indexed: "indexed example_fitted"
  by code_simp

section \<open>Schema mismatch errors\<close>

text \<open>
  C1, as the code has it. Let the indexes of a fitted object be in place. A call of
  \<open>fit_partial\<close> with a user-feature or item-feature table that does not cover the
  known identifiers exactly raises, and the object holds the same six weight arrays after
  the call as before it. A call of \<open>fit\<close> with such a table raises as well, but it
  has cleared the object first: after the failed call every weight array is \<open>None\<close>.
\<close>

theorem schema_mismatch_raises:
  fixes s :: "('u::linorder, 'i::linorder) rankfm"
  assumes wf: "is_fit s \<longrightarrow> indexed s"
  shows "(schema_mismatch (known_users s ia) (known_items s ia) uf itf \<longrightarrow>
            raised (fit_partial fc nrm s g ia uf itf ep vb) \<noteq> None
          \<and> weight_store (fst (state_of (fit_partial fc nrm s g ia uf itf ep vb))) = weight_store s)
       \<and> (schema_mismatch (sort (remdups (map fst ia))) (sort (remdups (map snd ia))) uf itf \<longrightarrow>
            raised (fit fc nrm s g ia uf itf ep vb) \<noteq> None
          \<and> weight_store (fst (state_of (fit fc nrm s g ia uf itf ep vb)))
              = (None, None, None, None, None, None))"
proof (intro conjI impI)
  assume mm: "schema_mismatch (known_users s ia) (known_items s ia) uf itf"
  from fit_partial_init_mismatch [OF wf mm, of nrm g] obtain e s' where
    r: "fit_partial_init nrm s g ia uf itf = Raised e (s', g)" "weight_store s' = weight_store s"
    by blast
  from fit_partial_raised_init [OF r(1)] r(2)
  show "raised (fit_partial fc nrm s g ia uf itf ep vb) \<noteq> None"
    and "weight_store (fst (state_of (fit_partial fc nrm s g ia uf itf ep vb))) = weight_store s"
    by simp_all
next
  assume mm: "schema_mismatch (sort (remdups (map fst ia))) (sort (remdups (map snd ia))) uf itf"
  have nf: "\<not> is_fit (reset_state s)" by (simp add: reset_state_def)
  then have "schema_mismatch (known_users (reset_state s) ia) (known_items (reset_state s) ia) uf itf"
    using mm by (simp add: known_users_def known_items_def)
  with fit_partial_init_mismatch [of "reset_state s" ia uf itf nrm g] nf obtain e s' where
    r: "fit_partial_init nrm (reset_state s) g ia uf itf = Raised e (s', g)"
       "weight_store s' = weight_store (reset_state s)"
    by blast
  from fit_raised_init [OF r(1)] r(2) weight_store_reset [of s]
  show "raised (fit fc nrm s g ia uf itf ep vb) \<noteq> None"
    and "weight_store (fst (state_of (fit fc nrm s g ia uf itf ep vb)))
              = (None, None, None, None, None, None)"
    by simp_all
qed

theorem schema_mismatch_raises_witness:
  "is_fit example_fitted \<and> indexed example_fitted
   \<and> schema_mismatch (known_users example_fitted [(1, 10), (2, 20)])
        (known_items example_fitted [(1, 10), (2, 20)]) (Some (1, [(1, [Fin 1])])) None
   \<and> raised (fit_partial example_fit_core example_normal example_fitted 3 [(1, 10), (2, 20)]
         (Some (1, [(1, [Fin 1])])) None 1 False) \<noteq> None
   \<and> weight_store (fst (state_of (fit_partial example_fit_core example_normal example_fitted 3
         [(1, 10), (2, 20)] (Some (1, [(1, [Fin 1])])) None 1 False)))
       = weight_store example_fitted
   \<and> schema_mismatch (sort (remdups (map fst [(1 :: int, 10 :: int), (2, 20)])))
        (sort (remdups (map snd [(1 :: int, 10 :: int), (2, 20)]))) (Some (1, [(1, [Fin 1])])) None
   \<and> raised (fit example_fit_core example_normal example_fitted 3 [(1, 10), (2, 20)]
         (Some (1, [(1, [Fin 1])])) None 1 False) \<noteq> None
   \<and> weight_store (fst (state_of (fit example_fit_core example_normal example_fitted 3
         [(1, 10), (2, 20)] (Some (1, [(1, [Fin 1])])) None 1 False)))
       = (None, None, None, None, None, None)"
proof -
  have h1: "is_fit example_fitted \<longrightarrow> indexed example_fitted"
    using example_fitted_indexed by simp
  have h2: "schema_mismatch (known_users example_fitted [(1, 10), (2, 20)])
        (known_items example_fitted [(1, 10), (2, 20)]) (Some (1, [(1, [Fin 1])])) None"
    by code_simp
  have h3: "schema_mismatch (sort (remdups (map fst [(1 :: int, 10 :: int), (2, 20)])))
        (sort (remdups (map snd [(1 :: int, 10 :: int), (2, 20)]))) (Some (1, [(1, [Fin 1])])) None"
    by code_simp
  have h4: "is_fit example_fitted"
    by (simp add: example_fitted_def)
  from schema_mismatch_raises [OF h1, of "[(1, 10), (2, 20)]" "Some (1, [(1, [Fin 1])])" None
      example_fit_core example_normal 3 1 False] example_fitted_indexed h2 h3 h4
  show ?thesis by blast
qed

text \<open>
  C1 as stated fails for \<open>fit\<close> on a fitted object: the call raises the KeyError, and
  the weight arrays the object held before the call are gone.
\<close>

theorem failed_fit_clears_weights:
  "raised (fit example_fit_core example_normal example_fitted 3 [(1, 10), (2, 20)]
         (Some (1, [(1, [Fin 1])])) None 1 False)
     = Some (KeyError ''the users in [user_features] do not match the users in [interactions]'')
   \<and> weight_store (fst (state_of (fit example_fit_core example_normal example_fitted 3
         [(1, 10), (2, 20)] (Some (1, [(1, [Fin 1])])) None 1 False)))
       \<noteq> weight_store example_fitted"
  by code_simp

section \<open>Identifiers outside the index\<close>

text \<open>
  C2. On the object fitted on the users 1, 2 and the items 10, 20, \<open>fit_partial\<close> with
  the interactions \<open>(1, 10), (3, 20)\<close> does not drop the row of the unknown user 3 and
  train on the other row: the cast of line 142 raises ValueError, and the object is left
  with the raw frame as its interactions.
\<close>

theorem unknown_identifier_raises:
  "fit_partial example_fit_core example_normal example_fitted 3 [(1, 10), (3, 20)] None None 1 False
     = Raised (ValueError ''Cannot convert non-finite values (NA or inf) to integer'')
         (example_fitted\<lparr>interactions := Some (RawFrame [(1, 10), (3, 20)])\<rparr>, 3)"
  by code_simp

section \<open>What the fitting methods return\<close>

text \<open>
  C3. On a new object and the interactions \<open>(1, 10), (1, 20), (2, 20)\<close>, \<open>fit\<close>
  succeeds and returns \<open>None\<close>, where \<open>fit_partial\<close> on the same input returns the
  object; both leave the same fitted object.
\<close>

theorem fit_returns_none:
  "fit example_fit_core example_normal example_fresh 0 [(1, 10), (1, 20), (2, 20)] None None 1 False
     = Returned PyNone (example_fitted, 3)
   \<and> fit_partial example_fit_core example_normal example_fresh 0 [(1, 10), (1, 20), (2, 20)]
       None None 1 False = Returned Self (example_fitted, 3)"
  by code_simp

section \<open>The initialisation of a fit\<close>

lemma map_of_group_items:
  "map_of (group_items arr) u =
    (if u \<in> fst ` set arr then Some (sort (map snd (filter (\<lambda>p. fst p = u) arr))) else None)"
  unfolding group_items_def map_of_map_restrict by (simp add: restrict_map_def)

lemma dict_consistent_group_items: "dict_consistent arr (group_items arr)"
  unfolding dict_consistent_def
proof (intro conjI ballI)
  show "distinct (map fst (group_items arr))"
    by (simp add: group_items_def comp_def)
next
  fix p assume "p \<in> set arr"
  then show "case map_of (group_items arr) (fst p) of None \<Rightarrow> False
      | Some items \<Rightarrow> snd p \<in> set items"
    by (force simp: map_of_group_items)
next
  fix e i assume "e \<in> set (group_items arr)" "i \<in> set (snd e)"
  then show "(fst e, i) \<in> set arr"
    by (auto simp: group_items_def)
qed

lemma init_interactions_Returned:
  assumes "init_interactions s ia = Returned x s'"
  shows "\<exists>arr. interactions s' = Some (IndexArray arr)
      \<and> user_items_py s' = Some (group_items arr) \<and> user_items_nb s' = Some (group_items arr)"
  using assms unfolding init_interactions_def Let_def
  by (auto split: option.splits sum.splits)

lemma init_weights_frame:
  assumes "init_weights nrm s g uf itf = Raised e (s', g')
         \<or> init_weights nrm s g uf itf = Returned x (s', g')"
  shows "s'\<lparr>w_i := w_i s, w_if := w_if s, v_u := v_u s, v_i := v_i s,
            v_uf := v_uf s, v_if := v_if s\<rparr> = s"
  using assms unfolding init_weights_def Let_def
  by (auto split: option.splits prod.splits if_splits)

lemma init_weights_fields:
  assumes "init_weights nrm s g uf itf = Raised e (s', g')
         \<or> init_weights nrm s g uf itf = Returned x (s', g')"
  shows "interactions s' = interactions s" "user_items_py s' = user_items_py s"
    "user_items_nb s' = user_items_nb s"
proof -
  let ?r = "s'\<lparr>w_i := w_i s, w_if := w_if s, v_u := v_u s, v_i := v_i s,
            v_uf := v_uf s, v_if := v_if s\<rparr>"
  have "interactions ?r = interactions s" "user_items_py ?r = user_items_py s"
    "user_items_nb ?r = user_items_nb s"
    unfolding init_weights_frame [OF assms] by simp_all
  then show "interactions s' = interactions s" "user_items_py s' = user_items_py s"
    "user_items_nb s' = user_items_nb s" by simp_all
qed


lemma init_all_unfold:
  "init_all nrm s g ia uf itf =
    (case init_interactions (with_indexes s ia) ia of
       Raised e s5 \<Rightarrow> Raised e (s5, g)
     | Returned _ s5 \<Rightarrow>
         (case init_features s5 uf itf of
            Raised e s6 \<Rightarrow> Raised e (s6, g)
          | Returned _ s6 \<Rightarrow> init_weights nrm s6 g uf itf))"
  by (simp add: init_all_def with_indexes_def Let_def)

lemma fit_partial_init_Returned:
  assumes "fit_partial_init nrm s g ia uf itf = Returned x (s1, g1)"
  shows "\<exists>sa sb.
    init_interactions (if is_fit s then s else with_indexes s ia) ia = Returned () sa
    \<and> init_features sa uf itf = Returned () sb
    \<and> (is_fit s \<longrightarrow> s1 = sb \<and> g1 = g)
    \<and> (\<not> is_fit s \<longrightarrow> init_weights nrm sb g uf itf = Returned () (s1, g1))"
  using assms unfolding fit_partial_init_def init_all_unfold
  by (auto split: if_splits outcome.splits)









lemma reset_state_hyperparameters:
  fixes s t :: "('u, 'i) rankfm"
  assumes "hyperparameters s = hyperparameters t"
  shows "reset_state s = reset_state t"
  using assms by (cases s, cases t) (simp add: reset_state_def hyperparameters_def)

lemma example_partial_init:
  "fit_partial_init example_normal example_fitted 3 [(2, 20), (1, 10), (2, 10)] None None
    = Returned ()
       (example_fitted\<lparr>interactions := Some (IndexArray [(1, 1), (0, 0), (1, 0)]),
          user_items_py := Some [(0, [0]), (1, [0, 1])],
          user_items_nb := Some [(0, [0]), (1, [0, 1])]\<rparr>, 3)"
  by code_simp

lemma example_hyperparameters: "hyperparameters example_fitted = hyperparameters example_fresh"
  by (simp add: hyperparameters_def example_fitted_def example_fresh_def)

lemma example_is_fit: "is_fit example_fitted"
  by (simp add: example_fitted_def)

text \<open>
  The indexes of an object that a successful \<open>fit_partial\<close> leaves are in place,
  provided they were if the object was fitted before; so they are after every sequence of
  successful fits of a new object.
\<close>

lemma with_indexes_indexed: "indexed (with_indexes s ia)"
  by (simp add: indexed_def with_indexes_def)

lemma indexed_frame:
  "indexed (s\<lparr>interactions := a, user_items_py := b, user_items_nb := c\<rparr>) = indexed s"
  "indexed (s\<lparr>x_uf := xu, x_if := xi\<rparr>) = indexed s"
  "indexed (s\<lparr>w_i := Some wi, w_if := Some wif, v_u := Some vu, v_i := Some vi,
      v_uf := Some vuf, v_if := Some vif, is_fit := True\<rparr>) = indexed s"
  by (simp_all add: indexed_def cong: option.case_cong)

lemma init_weights_indexed:
  assumes "init_weights nrm s g uf itf = Returned x (s', g')"
  shows "indexed s' = indexed s"
proof -
  let ?r = "s'\<lparr>w_i := w_i s, w_if := w_if s, v_u := v_u s, v_i := v_i s,
            v_uf := v_uf s, v_if := v_if s\<rparr>"
  have "indexed ?r = indexed s'" by (simp add: indexed_def cong: option.case_cong)
  moreover have "?r = s" using init_weights_frame [of nrm s g uf itf _ s' g' x] assms by simp
  ultimately show ?thesis by simp
qed

lemma fit_partial_indexed:
  fixes s :: "('u::linorder, 'i::linorder) rankfm"
  assumes wf: "is_fit s \<longrightarrow> indexed s"
    and r: "fit_partial fc nrm s g ia uf itf ep vb = Returned x (s', g')"
  shows "is_fit s' \<and> indexed s'"
proof -
  from r obtain s1 g1 where
    i: "fit_partial_init nrm s g ia uf itf = Returned () (s1, g1)"
    by (auto simp: fit_partial_def split: outcome.splits)
  with r obtain wi wif vu vi vuf vif where
    s': "s' = s1\<lparr>w_i := Some wi, w_if := Some wif, v_u := Some vu, v_i := Some vi,
      v_uf := Some vuf, v_if := Some vif, is_fit := True\<rparr>"
    by (auto simp: fit_partial_def split: prod.splits sum.splits)
  from fit_partial_init_Returned [OF i] obtain sa sb where
    a: "init_interactions (if is_fit s then s else with_indexes s ia) ia = Returned () sa" and
    b: "init_features sa uf itf = Returned () sb" and
    c: "is_fit s \<longrightarrow> s1 = sb \<and> g1 = g" and
    d: "\<not> is_fit s \<longrightarrow> init_weights nrm sb g uf itf = Returned () (s1, g1)"
    by blast
  have "indexed (if is_fit s then s else with_indexes s ia)"
    using wf with_indexes_indexed by auto
  moreover from init_interactions_frame [of _ ia _ sa "()"] a obtain p q o' where
    "sa = (if is_fit s then s else with_indexes s ia)
       \<lparr>interactions := p, user_items_py := q, user_items_nb := o'\<rparr>" by blast
  ultimately have "indexed sa" by (simp only: indexed_frame)
  moreover from init_features_frame [of sa uf itf _ sb "()"] b obtain xu xi where
    "sb = sa\<lparr>x_uf := xu, x_if := xi\<rparr>" by blast
  ultimately have "indexed sb" by (simp only: indexed_frame)
  then have "indexed s1"
    using c d init_weights_indexed [of nrm sb g uf itf "()" s1 g1] by (cases "is_fit s") auto
  then show ?thesis by (simp add: s' indexed_frame)
qed

section \<open>Resumed and fresh fits\<close>

text \<open>
  C4. When \<open>fit_partial\<close> on a fitted object has mapped the new data, the random source
  is untouched, the six weight arrays and the eight index attributes are those the object
  had, and \<open>_fit\<close> is called on those weight arrays, the object's item index and its
  hyperparameters. A fresh \<open>fit\<close> depends on the object's hyperparameters only: two
  objects with the same hyperparameters give the same outcome, whatever they held, since
  \<open>fit\<close> first sets the weights, the indexes and the features to \<open>None\<close>.
\<close>

theorem partial_fit_resumes_fresh_fit_discards:
  fixes s t :: "('u::linorder, 'i::linorder) rankfm"
  shows "(is_fit s \<and> fit_partial_init nrm s g ia uf itf = Returned () (s1, g1) \<longrightarrow>
      g1 = g \<and> weight_store s1 = weight_store s
      \<and> user_id s1 = user_id s \<and> item_id s1 = item_id s
      \<and> user_idx s1 = user_idx s \<and> item_idx s1 = item_idx s
      \<and> index_to_user s1 = index_to_user s \<and> index_to_item s1 = index_to_item s
      \<and> user_to_index s1 = user_to_index s \<and> item_to_index s1 = item_to_index s
      \<and> fit_args s1 ep vb =
          (interactions s1, user_items_nb s1, item_idx s, regularization s, learning_rate s,
           learning_schedule s, learning_exponent s, ep, vb, x_uf s1, x_if s1, weight_store s)
      \<and> fit_partial fc nrm s g ia uf itf ep vb =
          (case fc g (fit_args s1 ep vb) of
             (Inl e, g2) \<Rightarrow> Raised e (s1, g2)
           | (Inr (wi, wif, vu, vi, vuf, vif), g2) \<Rightarrow>
               Returned Self
                 (s1\<lparr>w_i := Some wi, w_if := Some wif, v_u := Some vu, v_i := Some vi,
                     v_uf := Some vuf, v_if := Some vif, is_fit := True\<rparr>, g2)))
    \<and> (hyperparameters s = hyperparameters t \<longrightarrow>
         fit fc nrm s g ia uf itf ep vb = fit fc nrm t g ia uf itf ep vb)
    \<and> weight_store (reset_state s) = (None, None, None, None, None, None)
    \<and> user_to_index (reset_state s) = None \<and> item_to_index (reset_state s) = None
    \<and> x_uf (reset_state s) = None \<and> x_if (reset_state s) = None"
proof (intro conjI impI)
  assume a: "is_fit s \<and> fit_partial_init nrm s g ia uf itf = Returned () (s1, g1)"
  then obtain sa where sa: "init_interactions s ia = Returned () sa"
    "init_features sa uf itf = Returned () s1" and g1: "g1 = g"
    using fit_partial_init_Returned [of nrm s g ia uf itf "()" s1 g1] by auto
  from init_interactions_frame [of s ia _ sa "()"] sa(1) obtain a b c where
    "sa = s\<lparr>interactions := a, user_items_py := b, user_items_nb := c\<rparr>" by blast
  moreover from init_features_frame [of sa uf itf _ s1 "()"] sa(2) obtain xu xi where
    "s1 = sa\<lparr>x_uf := xu, x_if := xi\<rparr>" by blast
  ultimately have s1: "s1 = s\<lparr>interactions := a, user_items_py := b, user_items_nb := c,
      x_uf := xu, x_if := xi\<rparr>" by simp
  show "g1 = g" by (rule g1)
  show w: "weight_store s1 = weight_store s" by (simp add: s1 weight_store_def)
  show "user_id s1 = user_id s" "item_id s1 = item_id s" "user_idx s1 = user_idx s"
    "item_idx s1 = item_idx s" "index_to_user s1 = index_to_user s"
    "index_to_item s1 = index_to_item s" "user_to_index s1 = user_to_index s"
    "item_to_index s1 = item_to_index s"
    by (simp_all add: s1)
  show "fit_args s1 ep vb =
          (interactions s1, user_items_nb s1, item_idx s, regularization s, learning_rate s,
           learning_schedule s, learning_exponent s, ep, vb, x_uf s1, x_if s1, weight_store s)"
    unfolding fit_args_def w by (simp add: s1)
  show "fit_partial fc nrm s g ia uf itf ep vb =
          (case fc g (fit_args s1 ep vb) of
             (Inl e, g2) \<Rightarrow> Raised e (s1, g2)
           | (Inr (wi, wif, vu, vi, vuf, vif), g2) \<Rightarrow>
               Returned Self
                 (s1\<lparr>w_i := Some wi, w_if := Some wif, v_u := Some vu, v_i := Some vi,
                     v_uf := Some vuf, v_if := Some vif, is_fit := True\<rparr>, g2))"
    using a g1 by (simp add: fit_partial_def)
next
  assume "hyperparameters s = hyperparameters t"
  then show "fit fc nrm s g ia uf itf ep vb = fit fc nrm t g ia uf itf ep vb"
    by (simp add: fit_def reset_state_hyperparameters [of s t])
qed (simp_all add: reset_state_def weight_store_def)


theorem partial_fit_resumes_fresh_fit_discards_witness:
  "is_fit example_fitted
   \<and> fit_partial_init example_normal example_fitted 3 [(2, 20), (1, 10), (2, 10)] None None
    = Returned ()
       (example_fitted\<lparr>interactions := Some (IndexArray [(1, 1), (0, 0), (1, 0)]),
          user_items_py := Some [(0, [0]), (1, [0, 1])],
          user_items_nb := Some [(0, [0]), (1, [0, 1])]\<rparr>, 3)
   \<and> weight_store
       (example_fitted\<lparr>interactions := Some (IndexArray [(1, 1), (0, 0), (1, 0)]),
          user_items_py := Some [(0, [0]), (1, [0, 1])],
          user_items_nb := Some [(0, [0]), (1, [0, 1])]\<rparr>) = weight_store example_fitted
   \<and> hyperparameters example_fitted = hyperparameters example_fresh
   \<and> fit example_fit_core example_normal example_fitted 3 [(2, 20), (1, 10), (2, 10)] None None
        1 False
     = fit example_fit_core example_normal example_fresh 3 [(2, 20), (1, 10), (2, 10)] None None
        1 False"
  using partial_fit_resumes_fresh_fit_discards [of example_fitted example_normal 3
      "[(2, 20), (1, 10), (2, 10)]" None None
      "example_fitted\<lparr>interactions := Some (IndexArray [(1, 1), (0, 0), (1, 0)]),
          user_items_py := Some [(0, [0]), (1, [0, 1])],
          user_items_nb := Some [(0, [0]), (1, [0, 1])]\<rparr>" 3 1 False example_fit_core
      example_fresh]
    example_partial_init example_hyperparameters example_is_fit
  by blast

section \<open>A fresh fit without side features\<close>






section \<open>The observed sets\<close>

text \<open>
  C8. When the initialisation of \<open>fit_partial\<close> (and so of \<open>fit\<close>) succeeds, the
  object is consistent: in the plain and in the typed dictionary, every pair \<open>(u, i)\<close> of
  the interaction array has \<open>i\<close> in the observed set of \<open>u\<close>, and every item of an
  observed set of \<open>u\<close> is a pair \<open>(u, i)\<close> of the array.
\<close>

theorem observed_sets_match_interactions:
  fixes s :: "('u::linorder, 'i::linorder) rankfm"
  assumes "fit_partial_init nrm s g ia uf itf = Returned x (s1, g1)"
  shows "observed_consistent s1"
proof -
  obtain sa sb where
    a: "init_interactions (if is_fit s then s else with_indexes s ia) ia = Returned () sa" and
    b: "init_features sa uf itf = Returned () sb" and
    c: "is_fit s \<Longrightarrow> s1 = sb \<and> g1 = g" and
    d: "\<not> is_fit s \<Longrightarrow> init_weights nrm sb g uf itf = Returned () (s1, g1)"
    using fit_partial_init_Returned [OF assms] by blast
  from init_interactions_Returned [OF a] obtain arr where
    arr: "interactions sa = Some (IndexArray arr)" "user_items_py sa = Some (group_items arr)"
      "user_items_nb sa = Some (group_items arr)"
    by blast
  from init_features_frame [of sa uf itf _ sb "()"] b obtain xu xi where
    "sb = sa\<lparr>x_uf := xu, x_if := xi\<rparr>" by blast
  with arr have sb: "interactions sb = Some (IndexArray arr)"
    "user_items_py sb = Some (group_items arr)" "user_items_nb sb = Some (group_items arr)"
    by simp_all
  have "interactions s1 = Some (IndexArray arr) \<and> user_items_py s1 = Some (group_items arr)
      \<and> user_items_nb s1 = Some (group_items arr)"
  proof (cases "is_fit s")
    case True
    with c sb show ?thesis by simp
  next
    case False
    from init_weights_fields [of nrm sb g uf itf _ s1 g1 "()"] d [OF False] sb
    show ?thesis by simp
  qed
  then show ?thesis
    by (simp add: observed_consistent_def dict_consistent_group_items)
qed


theorem observed_sets_match_interactions_witness:
  "fit_partial_init example_normal example_fitted 3 [(2, 20), (1, 10), (2, 10)] None None
    = Returned ()
       (example_fitted\<lparr>interactions := Some (IndexArray [(1, 1), (0, 0), (1, 0)]),
          user_items_py := Some [(0, [0]), (1, [0, 1])],
          user_items_nb := Some [(0, [0]), (1, [0, 1])]\<rparr>, 3)
   \<and> observed_consistent
       (example_fitted\<lparr>interactions := Some (IndexArray [(1, 1), (0, 0), (1, 0)]),
          user_items_py := Some [(0, [0]), (1, [0, 1])],
          user_items_nb := Some [(0, [0]), (1, [0, 1])]\<rparr>)"
  using observed_sets_match_interactions [OF example_partial_init] example_partial_init
  by simp

section \<open>The negative sampler\<close>

lemma sample_negative_unfold:
  "sample_negative choice g xs ui u =
    (if fst (choice g xs) \<in> set (observed ui u)
     then sample_negative choice (snd (choice g xs)) xs ui u
     else Some (fst (choice g xs), snd (choice g xs)))"
  by (subst sample_negative.simps) (simp add: split_beta)

lemma source_after_Suc:
  "source_after choice xs g (Suc n) = source_after choice xs (snd (choice g xs)) n"
  using funpow_swap1 [of "\<lambda>h. snd (choice h xs)" n g] by (simp add: source_after_def)

lemma nth_draw_Suc:
  "nth_draw choice xs g (Suc n) = nth_draw choice xs (snd (choice g xs)) n"
  by (simp add: nth_draw_def source_after_Suc)

lemma sample_negative_first:
  assumes "nth_draw choice xs g n \<notin> set (observed ui u)"
    and "\<forall>m<n. nth_draw choice xs g m \<in> set (observed ui u)"
  shows "sample_negative choice g xs ui u
    = Some (nth_draw choice xs g n, source_after choice xs g (Suc n))"
  using assms
proof (induction n arbitrary: g)
  case 0
  then show ?case
    by (subst sample_negative_unfold) (simp add: nth_draw_def source_after_def)
next
  case (Suc n)
  from Suc.prems(2) have "nth_draw choice xs g 0 \<in> set (observed ui u)" by blast
  then have obs: "fst (choice g xs) \<in> set (observed ui u)"
    by (simp add: nth_draw_def source_after_def)
  have "sample_negative choice (snd (choice g xs)) xs ui u
    = Some (nth_draw choice xs (snd (choice g xs)) n,
            source_after choice xs (snd (choice g xs)) (Suc n))"
  proof (rule Suc.IH)
    show "nth_draw choice xs (snd (choice g xs)) n \<notin> set (observed ui u)"
      using Suc.prems(1) by (simp add: nth_draw_Suc)
    show "\<forall>m<n. nth_draw choice xs (snd (choice g xs)) m \<in> set (observed ui u)"
      using Suc.prems(2) nth_draw_Suc [of choice xs g] by (metis Suc_less_eq)
  qed
  with obs show ?case
    by (subst sample_negative_unfold) (simp add: nth_draw_Suc source_after_Suc)
qed

lemma sample_negative_Some:
  assumes "sample_negative choice g xs ui u = Some r"
  shows "\<exists>n. nth_draw choice xs g n \<notin> set (observed ui u)
     \<and> (\<forall>m<n. nth_draw choice xs g m \<in> set (observed ui u))
     \<and> r = (nth_draw choice xs g n, source_after choice xs g (Suc n))"
proof (rule sample_negative.raw_induct [where P = "\<lambda>choice g xs ui u r.
     \<exists>n. nth_draw choice xs g n \<notin> set (observed ui u)
     \<and> (\<forall>m<n. nth_draw choice xs g m \<in> set (observed ui u))
     \<and> r = (nth_draw choice xs g n, source_after choice xs g (Suc n))", OF _ assms])
  fix sn choice g xs ui u r
  assume IH: "\<And>c g xs ui u y. sn c g xs ui u = Some y \<Longrightarrow>
     \<exists>n. nth_draw c xs g n \<notin> set (observed ui u)
     \<and> (\<forall>m<n. nth_draw c xs g m \<in> set (observed ui u))
     \<and> y = (nth_draw c xs g n, source_after c xs g (Suc n))"
    and body: "(case choice g xs of
      (i, g') \<Rightarrow>
        if i \<in> set (observed ui u)
        then sn choice g' xs ui u
        else Some (i, g')) = Some r"
  have body': "(if fst (choice g xs) \<in> set (observed ui u)
      then sn choice (snd (choice g xs)) xs ui u
      else Some (fst (choice g xs), snd (choice g xs))) = Some r"
    using body by (simp add: split_beta)
  show "\<exists>n. nth_draw choice xs g n \<notin> set (observed ui u)
     \<and> (\<forall>m<n. nth_draw choice xs g m \<in> set (observed ui u))
     \<and> r = (nth_draw choice xs g n, source_after choice xs g (Suc n))"
  proof (cases "fst (choice g xs) \<in> set (observed ui u)")
    case True
    with body' have "sn choice (snd (choice g xs)) xs ui u = Some r"
      by simp
    from IH [OF this] obtain n where
      n: "nth_draw choice xs (snd (choice g xs)) n \<notin> set (observed ui u)"
        "\<forall>m<n. nth_draw choice xs (snd (choice g xs)) m \<in> set (observed ui u)"
        "r = (nth_draw choice xs (snd (choice g xs)) n,
              source_after choice xs (snd (choice g xs)) (Suc n))"
      by blast
    have "nth_draw choice xs g m \<in> set (observed ui u)" if "m < Suc n" for m
    proof (cases m)
      case 0
      with True show ?thesis by (simp add: nth_draw_def source_after_def)
    next
      case (Suc k)
      with that n(2) show ?thesis by (simp add: nth_draw_Suc)
    qed
    with n(1,3) show ?thesis
      by (intro exI [of _ "Suc n"]) (simp add: nth_draw_Suc source_after_Suc)
  next
    case False
    with body' have "r = (fst (choice g xs), snd (choice g xs))"
      by simp
    with False show ?thesis
      by (intro exI [of _ 0]) (simp add: nth_draw_def source_after_def)
  qed
qed

lemma example_sample: "sample_negative example_choice 0 [0, 1, 2] [(0, [0, 1])] 0 = Some (2, 3)"
  by (simp add: sample_negative_unfold observed_def example_choice_def)


text \<open>
  C9. \<open>sample_negative\<close> returns an item index exactly when some draw is outside the
  observed set of the user, and then it returns the first such draw, with the random
  source after that draw; so an index it returns is never in the observed set. When every
  draw is an item index and the observed set covers all item indices, it never returns.
\<close>

theorem sample_negative_first_unobserved:
  "(sample_negative choice g xs ui u = Some (i, g') \<longleftrightarrow>
      (\<exists>n. nth_draw choice xs g n \<notin> set (observed ui u)
         \<and> (\<forall>m<n. nth_draw choice xs g m \<in> set (observed ui u))
         \<and> i = nth_draw choice xs g n \<and> g' = source_after choice xs g (Suc n)))
   \<and> (sample_negative choice g xs ui u = Some (i, g') \<longrightarrow> i \<notin> set (observed ui u))
   \<and> ((\<forall>h. fst (choice h xs) \<in> set xs) \<and> set xs \<subseteq> set (observed ui u) \<longrightarrow>
        sample_negative choice g xs ui u = None)"
proof (intro conjI impI iffI)
  assume "sample_negative choice g xs ui u = Some (i, g')"
  from sample_negative_Some [OF this]
  show "\<exists>n. nth_draw choice xs g n \<notin> set (observed ui u)
         \<and> (\<forall>m<n. nth_draw choice xs g m \<in> set (observed ui u))
         \<and> i = nth_draw choice xs g n \<and> g' = source_after choice xs g (Suc n)"
    by auto
next
  assume "\<exists>n. nth_draw choice xs g n \<notin> set (observed ui u)
         \<and> (\<forall>m<n. nth_draw choice xs g m \<in> set (observed ui u))
         \<and> i = nth_draw choice xs g n \<and> g' = source_after choice xs g (Suc n)"
  then show "sample_negative choice g xs ui u = Some (i, g')"
    using sample_negative_first [of choice xs g _ ui u] by auto
next
  assume "sample_negative choice g xs ui u = Some (i, g')"
  from sample_negative_Some [OF this] show "i \<notin> set (observed ui u)" by auto
next
  assume a: "(\<forall>h. fst (choice h xs) \<in> set xs) \<and> set xs \<subseteq> set (observed ui u)"
  show "sample_negative choice g xs ui u = None"
  proof (cases "sample_negative choice g xs ui u")
    case None
    then show ?thesis .
  next
    case (Some r)
    from sample_negative_Some [OF this] obtain n where
      "nth_draw choice xs g n \<notin> set (observed ui u)" by blast
    moreover have "nth_draw choice xs g n \<in> set xs" using a by (simp add: nth_draw_def)
    ultimately show ?thesis using a by blast
  qed
qed

theorem sample_negative_first_unobserved_witness:
  "sample_negative example_choice 0 [0, 1, 2] [(0, [0, 1])] 0 = Some (2, 3)
   \<and> 2 \<notin> set (observed [(0, [0, 1])] 0)"
  using sample_negative_first_unobserved [of example_choice 0 "[0, 1, 2]" "[(0, [0, 1])]" 0 2 3]
    example_sample
  by blast

section \<open>The cold-start policy\<close>

lemma predict_state: "state_of (predict pc s pairs cold_start) = s"
  by (auto simp: predict_def split: option.splits sum.splits)

lemma recommend_state:
  "state_of (recommend_for_users rc s users n_items filter_previous cold_start) = s"
  by (auto simp: recommend_for_users_def Let_def split: option.splits sum.splits)











text \<open>
  C10. On a fitted object whose index mappings are in place, a \<open>cold_start\<close> other than
  \<open>'nan'\<close> and \<open>'drop'\<close> makes \<open>predict\<close> and \<open>recommend_for_users\<close> raise
  ValueError when the core has returned its result; when the core raises, its error is the
  one raised, so the argument is looked at only after the core has run. The object is the
  same after the call.
\<close>

theorem invalid_cold_start_raises_after_scoring:
  assumes "is_fit s" and "cold_start \<noteq> ''nan''" and "cold_start \<noteq> ''drop''"
    and "user_to_index s = Some u2i" and "item_to_index s = Some i2i"
    and "index_to_item s = Some i2t"
  shows "predict pc s pairs cold_start =
      (case pc (zip (series_map u2i (map fst pairs)) (series_map i2i (map snd pairs)))
              (x_uf s) (x_if s) (weight_store s) of
         Inl e \<Rightarrow> Raised e s
       | Inr scores \<Rightarrow>
           Raised (ValueError ''param [cold_start] must be set to either nan or drop'') s)
    \<and> recommend_for_users rc s users n_items filter_previous cold_start =
      (case rc (series_map u2i users) (user_items_nb s) n_items filter_previous
              (x_uf s) (x_if s) (weight_store s) of
         Inl e \<Rightarrow> Raised e s
       | Inr rec_items \<Rightarrow>
           if length rec_items \<noteq> length users
           then Raised (ValueError ''Shape of passed values does not match the index'') s
           else Raised (ValueError ''param [cold_start] must be set to either nan or drop'') s)
    \<and> state_of (predict pc s pairs cold_start) = s
    \<and> state_of (recommend_for_users rc s users n_items filter_previous cold_start) = s"
  using assms
  by (auto simp: predict_def recommend_for_users_def Let_def split: sum.splits)

theorem invalid_cold_start_raises_after_scoring_witness:
  "is_fit example_fitted
   \<and> predict example_predict_core example_fitted [(1, 10), (3, 10)] ''zero''
     = Raised (ValueError ''param [cold_start] must be set to either nan or drop'') example_fitted
   \<and> predict failing_predict_core example_fitted [(1, 10), (3, 10)] ''zero''
     = Raised (CoreError ''shapes do not match'') example_fitted
   \<and> recommend_for_users example_recommend_core example_fitted [1, 3] 2 False ''zero''
     = Raised (ValueError ''param [cold_start] must be set to either nan or drop'') example_fitted"
proof -
  have f: "is_fit example_fitted" "''zero'' \<noteq> ''nan''" "''zero'' \<noteq> ''drop''"
    "user_to_index example_fitted = Some [(1, 0), (2, 1)]"
    "item_to_index example_fitted = Some [(10, 0), (20, 1)]"
    "index_to_item example_fitted = Some [10, 20]"
    by (simp_all add: example_fitted_def)
  from invalid_cold_start_raises_after_scoring [OF f, of example_predict_core "[(1, 10), (3, 10)]"
      example_recommend_core "[1, 3]" 2 False]
    invalid_cold_start_raises_after_scoring [OF f, of failing_predict_core "[(1, 10), (3, 10)]"
      example_recommend_core "[1, 3]" 2 False] f(1)
  show ?thesis
    by (simp add: example_predict_core_def failing_predict_core_def example_recommend_core_def
        series_map_def)
qed


end
